theory Spec2Isabelle
  imports Main "HOL-Library.AList"
begin

section \<open>Operation nodes\<close>

text \<open>
  The operation graph of \<^verbatim>\<open>metalibm_core.core.ml_operations\<close>: every node is an
  object with an operator class, an optional specifier, an operand list, a result
  format that may still be \<^verbatim>\<open>None\<close>, an optional tag and, for variables and signals,
  a direction. Nodes are compared structurally here; none of the properties proved below
  depends on object identity.
\<close>

datatype ml_format = ML_Int32 | ML_Int64 | ML_Binary32 | ML_Binary64 | ML_Custom string

datatype language = C_Code | VHDL_Code

datatype op_class =
    K_Variable | K_Signal | K_ReferenceAssign | K_Statement
  | K_Conversion | K_NearestInteger | K_SpecificOperation | K_Other string

datatype specifier = ReadTimeStamp

datatype var_type = Input | Output | Local

datatype ml_operation = ML_Operation
  (op_class: op_class)
  (specifier: "specifier option")
  (inputs: "ml_operation list")
  (precision: "ml_format option")
  (tag: "string option")
  (var_type: "var_type option")

text \<open>Python exceptions that the modelled code can raise.\<close>

datatype error =
    AttributeError
  | IndexError
  | AssertionError
  | LogError string
  | NameError string
  | UnresolvedOperatorError
  | GenerationError string

definition get_tag :: "ml_operation \<Rightarrow> string option" where
  "get_tag n = tag n"

definition get_precision :: "ml_operation \<Rightarrow> ml_format option" where
  "get_precision n = precision n"

text \<open>\<^verbatim>\<open>node.get_input(i)\<close> indexes the operand list and raises IndexError out of range.\<close>

definition get_input :: "ml_operation \<Rightarrow> nat \<Rightarrow> error + ml_operation" where
  "get_input n i = (if i < length (inputs n) then Inr (inputs n ! i) else Inl IndexError)"

text \<open>
  The node constructors used by the modelled files. \<^verbatim>\<open>Variable(name, precision = p)\<close>
  leaves the direction at the constructor's default, written \<open>None\<close> here.
\<close>

definition Variable :: "string \<Rightarrow> ml_format option \<Rightarrow> var_type option \<Rightarrow> ml_operation" where
  "Variable n p vt = ML_Operation K_Variable None [] p (Some n) vt"

definition Signal :: "string \<Rightarrow> ml_format option \<Rightarrow> var_type option \<Rightarrow> ml_operation" where
  "Signal n p vt = ML_Operation K_Signal None [] p (Some n) vt"

definition ReferenceAssign :: "ml_operation \<Rightarrow> ml_operation \<Rightarrow> ml_operation" where
  "ReferenceAssign dst src = ML_Operation K_ReferenceAssign None [dst, src] None None None"

definition Statement :: "ml_operation list \<Rightarrow> ml_operation" where
  "Statement ops = ML_Operation K_Statement None ops None None None"

definition Conversion :: "ml_operation \<Rightarrow> ml_format option \<Rightarrow> ml_operation" where
  "Conversion x p = ML_Operation K_Conversion None [x] p None None"

section \<open>Code objects and code generators\<close>

text \<open>
  Modelled from the spec: the code object (\<^verbatim>\<open>NestedCode\<close>, \<^verbatim>\<open>VHDLCodeObject\<close> of
  \<^verbatim>\<open>code_object.py\<close>, which is not among the sources). It accumulates emitted text,
  keeps the set of required headers (insertion is idempotent) and a stack of open
  levels; each level remembers whether it was opened with indentation. Closing a level
  when none is open is fatal.
\<close>

record code_object =
  headers :: "string list"
  buffer :: string
  levels :: "bool list"
  static_cst :: bool

definition NestedCode :: "bool \<Rightarrow> code_object" where
  "NestedCode sc = \<lparr>headers = [], buffer = [], levels = [], static_cst = sc\<rparr>"

definition add_local_header :: "string \<Rightarrow> code_object \<Rightarrow> code_object" where
  "add_local_header h co =
     (if h \<in> set (headers co) then co else co\<lparr>headers := headers co @ [h]\<rparr>)"

definition emit :: "string \<Rightarrow> code_object \<Rightarrow> code_object" where
  "emit s co = co\<lparr>buffer := buffer co @ s\<rparr>"

definition open_level :: "bool \<Rightarrow> code_object \<Rightarrow> code_object" where
  "open_level inc co = co\<lparr>levels := inc # levels co\<rparr>"

definition close_level :: "bool \<Rightarrow> code_object \<Rightarrow> error + code_object" where
  "close_level inc co =
     (case levels co of
        [] \<Rightarrow> Inl (GenerationError ''unbalanced level'')
      | _ # ls \<Rightarrow> Inr (co\<lparr>levels := ls\<rparr>))"

text \<open>
  The code generator is an argument of every modelled function, so it is a parameter
  here: \<^verbatim>\<open>code_generator.generate_expr(code_object, optree, **kwords)\<close> receives the code
  object, a node (Python lets the caller pass \<^verbatim>\<open>None\<close>) and the keyword arguments, and
  either raises or returns a result together with the updated code object.
\<close>

type_synonym ('k, 'r) code_generator =
  "code_object \<Rightarrow> ml_operation option \<Rightarrow> 'k \<Rightarrow> error + ('r \<times> code_object)"

section \<open>Operators (\<^verbatim>\<open>complex_generator.py\<close>)\<close>

datatype fo_arg = FO_Result nat | FO_Arg nat

text \<open>
  The operator classes that the modelled files build: inline assembly templates
  (template text, argument map, arity) and complex operators, which hold a node
  modifier and an optional backup operator.
\<close>

datatype cg_operator =
    AsmInlineOperator string "(nat \<times> fo_arg) list" nat
  | ComplexOperator
      (optree_modifier: "ml_operation \<Rightarrow> error + ml_operation option")
      (backup_operator: "cg_operator option")

text \<open>
  \<^verbatim>\<open>ComplexOperator.generate_expr\<close>. The generation method of the other operator
  classes (\<^verbatim>\<open>ML_CG_Operator\<close> in \<^verbatim>\<open>generator_utility.py\<close>) is not among the sources
  and is the parameter \<open>base\<close>. The keyword \<^verbatim>\<open>generate_pre_process\<close> is forwarded to the
  backup operator only.
\<close>

fun generate_expr ::
  "(cg_operator \<Rightarrow> ('k, 'r) code_generator \<Rightarrow> code_object \<Rightarrow> ml_operation \<Rightarrow> 'a \<Rightarrow> 'p option \<Rightarrow> 'k
      \<Rightarrow> error + ('r \<times> code_object))
   \<Rightarrow> cg_operator \<Rightarrow> ('k, 'r) code_generator \<Rightarrow> code_object \<Rightarrow> ml_operation \<Rightarrow> 'a \<Rightarrow> 'p option \<Rightarrow> 'k
   \<Rightarrow> error + ('r \<times> code_object)" where
  "generate_expr base (ComplexOperator modifier backup) code_generator co optree arg_tuple gpp kwords =
     (case modifier optree of
        Inl err \<Rightarrow> Inl err
      | Inr new_optree \<Rightarrow>
          (case backup of
             Some backup_op \<Rightarrow>
               if new_optree = None
               then generate_expr base backup_op code_generator co optree arg_tuple gpp kwords
               else code_generator co new_optree kwords
           | None \<Rightarrow> code_generator co new_optree kwords))"
| "generate_expr base (AsmInlineOperator t m a) code_generator co optree arg_tuple gpp kwords =
     base (AsmInlineOperator t m a) code_generator co optree arg_tuple gpp kwords"

section \<open>Entities (\<^verbatim>\<open>code_entity.py\<close>)\<close>

text \<open>
  The global names of the module: those that the import statements of lines 16 to 21
  bind, with the language constants for the star import of \<^verbatim>\<open>code_constant\<close>. The
  module uses two names that no import binds, \<^verbatim>\<open>Log\<close> (lines 63 and 75) and
  \<^verbatim>\<open>VHDLCodeObject\<close> (line 178); evaluating an unbound name raises NameError.
\<close>

definition code_entity_globals :: "string list" where
  "code_entity_globals =
     [''AbstractVariable'', ''Variable'', ''FunctionObject'', ''Statement'', ''ReferenceAssign'',
      ''Signal'', ''ComponentObject'', ''NestedCode'', ''FunctionOperator'', ''FO_Arg'',
      ''C_Code'', ''VHDL_Code'', ''Attributes'', ''AttributeCtor'']"

definition lookup_global :: "string \<Rightarrow> error + unit" where
  "lookup_global n = (if n \<in> set code_entity_globals then Inr () else Inl (NameError n))"

text \<open>
  Modelled from the spec: \<^verbatim>\<open>Log.report\<close> (\<^verbatim>\<open>utility/log_report.py\<close> is not among the
  sources). A report at error level is fatal: it raises and the caller's remaining
  statements do not run; \<^verbatim>\<open>buildRVCompilerPath\<close> in \<^verbatim>\<open>riscv.py\<close> relies on the same
  behaviour. Reports at other levels return normally.
\<close>

datatype log_level = Log_Error | Log_Warning | Log_Info

definition Log_report :: "log_level \<Rightarrow> string \<Rightarrow> error option" where
  "Log_report level msg = (if level = Log_Error then Some (LogError msg) else None)"

text \<open>
  The fatal report that lines 63 and 75 are written to make for an output name that is
  already registered.
\<close>

definition DuplicateOutputNameError :: "string \<Rightarrow> error" where
  "DuplicateOutputNameError n = LogError (''pre-existing name '' @ n @ '' in output_map'')"

record 'v attribute_ctor =
  attr_name :: string
  default_value :: 'v

definition AttributeCtor :: "string \<Rightarrow> 'v \<Rightarrow> 'v attribute_ctor" where
  "AttributeCtor n d = \<lparr>attr_name = n, default_value = d\<rparr>"

text \<open>
  The entity object. \<open>output_map\<close> is a Python dictionary whose values are read in
  insertion order, so it is an association list updated with \<open>AList.update\<close> (a new
  key goes to the end, an existing key keeps its place); \<open>arg_map\<close> is only looked up.
\<close>

record code_entity =
  name :: string
  arg_list :: "ml_operation list"
  arg_map :: "string option \<rightharpoonup> ml_operation"
  output_map :: "(string \<times> ml_operation) list"
  entity_code_object :: "code_object option"
  language :: language
  process_list :: "ml_operation list"
  current_stage :: int
  init_stage_attribute :: "int attribute_ctor"
  init_op_attribute :: "ml_operation option attribute_ctor"

text \<open>
  \<^verbatim>\<open>instanciate_dyn_attributes\<close>: the two attribute constructors of the entity. Their
  registration in the process-wide attribute registry is outside the modelled files.
\<close>

definition instanciate_dyn_attributes :: "code_entity \<Rightarrow> code_entity" where
  "instanciate_dyn_attributes e =
     e\<lparr>init_stage_attribute := AttributeCtor ''init_stage'' (current_stage e),
       init_op_attribute := AttributeCtor ''init_op'' None\<rparr>"

text \<open>
  \<^verbatim>\<open>CodeEntity.__init__\<close>. An absent or empty \<^verbatim>\<open>arg_list\<close> and \<^verbatim>\<open>output_map\<close> both give
  the empty container, so the arguments are plain lists here. In \<^verbatim>\<open>arg_map\<close> a later
  argument with the same tag replaces an earlier one.
\<close>

definition CodeEntity ::
  "string \<Rightarrow> ml_operation list \<Rightarrow> (string \<times> ml_operation) list \<Rightarrow> code_object option
     \<Rightarrow> language \<Rightarrow> code_entity" where
  "CodeEntity n args outs co lang =
     instanciate_dyn_attributes
       \<lparr>name = n,
        arg_list = args,
        arg_map = map_of (rev (map (\<lambda>arg. (get_tag arg, arg)) args)),
        output_map = outs,
        entity_code_object = co,
        language = lang,
        process_list = [],
        current_stage = 0,
        init_stage_attribute = AttributeCtor ''init_stage'' 0,
        init_op_attribute = AttributeCtor ''init_op'' None\<rparr>"

definition get_name :: "code_entity \<Rightarrow> string" where
  "get_name e = name e"

text \<open>
  The registration methods mutate the entity. Each returns the entity after the call
  next to its result; a method that can raise returns the error, if any, next to the
  entity as the exception leaves it. In the branch for a name that is already an output,
  the call \<^verbatim>\<open>Log.report(Log.error, ...)\<close> first evaluates the name \<^verbatim>\<open>Log\<close>.
\<close>

definition add_input_variable ::
  "string \<Rightarrow> ml_format option \<Rightarrow> code_entity \<Rightarrow> ml_operation \<times> code_entity" where
  "add_input_variable n vartype e =
     (let input_var = Variable n vartype None
      in (input_var,
          e\<lparr>arg_list := arg_list e @ [input_var],
            arg_map := (arg_map e)(Some n \<mapsto> input_var)\<rparr>))"

definition add_output_variable ::
  "string \<Rightarrow> ml_operation \<Rightarrow> code_entity \<Rightarrow> error option \<times> code_entity" where
  "add_output_variable n output_node e =
     (let output_var = Variable n (get_precision output_node) (Some Output);
          output_assign = ReferenceAssign output_var output_node;
          raised = (if n \<in> fst ` set (output_map e)
                    then (case lookup_global ''Log'' of
                            Inl err \<Rightarrow> Some err
                          | Inr u \<Rightarrow>
                              Log_report Log_Error
                                (''pre-existing name '' @ n @ '' in output_map''))
                    else None)
      in case raised of
           Some err \<Rightarrow> (Some err, e)
         | None \<Rightarrow> (None, e\<lparr>output_map := AList.update n output_assign (output_map e)\<rparr>))"

definition add_input_signal ::
  "string \<Rightarrow> ml_format option \<Rightarrow> code_entity \<Rightarrow> ml_operation \<times> code_entity" where
  "add_input_signal n signaltype e =
     (let input_signal = Signal n signaltype None
      in (input_signal,
          e\<lparr>arg_list := arg_list e @ [input_signal],
            arg_map := (arg_map e)(Some n \<mapsto> input_signal)\<rparr>))"

definition add_output_signal ::
  "string \<Rightarrow> ml_operation \<Rightarrow> code_entity \<Rightarrow> error option \<times> code_entity" where
  "add_output_signal n output_node e =
     (let output_var = Signal n (get_precision output_node) (Some Output);
          output_assign = ReferenceAssign output_var output_node;
          raised = (if n \<in> fst ` set (output_map e)
                    then (case lookup_global ''Log'' of
                            Inl err \<Rightarrow> Some err
                          | Inr u \<Rightarrow>
                              Log_report Log_Error
                                (''pre-existing name '' @ n @ '' in output_map''))
                    else None)
      in case raised of
           Some err \<Rightarrow> (Some err, e)
         | None \<Rightarrow> (None, e\<lparr>output_map := AList.update n output_assign (output_map e)\<rparr>))"

definition get_input_by_tag :: "code_entity \<Rightarrow> string option \<Rightarrow> ml_operation option" where
  "get_input_by_tag e t = (if t \<in> dom (arg_map e) then arg_map e t else None)"

definition get_port_from_output :: "ml_operation \<Rightarrow> error + ml_operation" where
  "get_port_from_output out = get_input out 0"

definition get_value_from_output :: "ml_operation \<Rightarrow> error + ml_operation" where
  "get_value_from_output out = get_input out 1"

definition get_output_assign :: "code_entity \<Rightarrow> ml_operation list" where
  "get_output_assign e = map snd (output_map e)"

definition get_current_stage :: "code_entity \<Rightarrow> int" where
  "get_current_stage e = current_stage e"

definition set_current_stage :: "int \<Rightarrow> code_entity \<Rightarrow> code_entity" where
  "set_current_stage stage_id e =
     (let e1 = e\<lparr>current_stage := stage_id\<rparr>
      in e1\<lparr>init_stage_attribute := (init_stage_attribute e1)\<lparr>default_value := current_stage e1\<rparr>\<rparr>)"

definition start_new_stage :: "code_entity \<Rightarrow> code_entity" where
  "start_new_stage e = set_current_stage (current_stage e + 1) e"

definition add_process :: "ml_operation \<Rightarrow> code_entity \<Rightarrow> code_entity" where
  "add_process new_process e = e\<lparr>process_list := process_list e @ [new_process]\<rparr>"

definition register_new_input_variable :: "ml_operation \<Rightarrow> code_entity \<Rightarrow> code_entity" where
  "register_new_input_variable new_input e = e\<lparr>arg_list := arg_list e @ [new_input]\<rparr>"

definition get_arg_list :: "code_entity \<Rightarrow> ml_operation list" where
  "get_arg_list e = arg_list e"

definition clear_arg_list :: "code_entity \<Rightarrow> code_entity" where
  "clear_arg_list e = e\<lparr>arg_list := []\<rparr>"

subsection \<open>Interface text\<close>

text \<open>Python's \<^verbatim>\<open>"%s"\<close> formatting of a tag: \<^verbatim>\<open>None\<close> prints as the word None.\<close>

definition py_str :: "string option \<Rightarrow> string" where
  "py_str t = (case t of None \<Rightarrow> ''None'' | Some s \<Rightarrow> s)"

text \<open>\<^verbatim>\<open>sep.join(xs)\<close>.\<close>

fun join :: "string \<Rightarrow> string list \<Rightarrow> string" where
  "join sep [] = []"
| "join sep [x] = x"
| "join sep (x # y # ys) = x @ sep @ join sep (y # ys)"

text \<open>A list comprehension whose body can raise: the first exception ends it.\<close>

fun map_raise :: "('a \<Rightarrow> error + 'b) \<Rightarrow> 'a list \<Rightarrow> error + 'b list" where
  "map_raise f [] = Inr []"
| "map_raise f (x # xs) =
     (case f x of
        Inl err \<Rightarrow> Inl err
      | Inr y \<Rightarrow> (case map_raise f xs of Inl err \<Rightarrow> Inl err | Inr ys \<Rightarrow> Inr (y # ys)))"

text \<open>
  \<^verbatim>\<open>fmt.get_code_name(language = language)\<close> on the result of \<^verbatim>\<open>get_precision()\<close>. The
  code names of the formats (\<^verbatim>\<open>ml_formats.py\<close>) are the parameter \<open>cn\<close>; calling the
  method on \<^verbatim>\<open>None\<close> raises AttributeError.
\<close>

definition get_code_name ::
  "(language \<Rightarrow> ml_format \<Rightarrow> string) \<Rightarrow> language \<Rightarrow> ml_format option \<Rightarrow> error + string" where
  "get_code_name cn lang p = (case p of None \<Rightarrow> Inl AttributeError | Some f \<Rightarrow> Inr (cn lang f))"

definition get_output_precision :: "ml_operation \<Rightarrow> error + ml_format option" where
  "get_output_precision output =
     (if op_class output \<noteq> K_ReferenceAssign then Inl AssertionError
      else case get_input output 0 of
             Inl err \<Rightarrow> Inl err
           | Inr out_signal \<Rightarrow>
               (case get_input output 1 of
                  Inl err \<Rightarrow> Inl err
                | Inr out_value \<Rightarrow>
                    if get_precision out_signal = None
                    then Inr (get_precision out_value)
                    else Inr (get_precision out_signal)))"

text \<open>The two list comprehensions of \<^verbatim>\<open>get_declaration\<close>.\<close>

definition input_port_line ::
  "(language \<Rightarrow> ml_format \<Rightarrow> string) \<Rightarrow> language \<Rightarrow> ml_operation \<Rightarrow> error + string" where
  "input_port_line cn lang inp =
     (case get_code_name cn lang (get_precision inp) of
        Inl err \<Rightarrow> Inl err
      | Inr c \<Rightarrow> Inr (py_str (get_tag inp) @ '' : in '' @ c))"

definition output_port_line ::
  "(language \<Rightarrow> ml_format \<Rightarrow> string) \<Rightarrow> language \<Rightarrow> ml_operation \<Rightarrow> error + string" where
  "output_port_line cn lang out =
     (case get_port_from_output out of
        Inl err \<Rightarrow> Inl err
      | Inr port \<Rightarrow>
          (case get_output_precision out of
             Inl err \<Rightarrow> Inl err
           | Inr p \<Rightarrow>
               (case get_code_name cn lang p of
                  Inl err \<Rightarrow> Inl err
                | Inr c \<Rightarrow> Inr (py_str (get_tag port) @ '' : out '' @ c))))"

definition input_port_list ::
  "(language \<Rightarrow> ml_format \<Rightarrow> string) \<Rightarrow> language \<Rightarrow> code_entity \<Rightarrow> error + string list" where
  "input_port_list cn lang e = map_raise (input_port_line cn lang) (arg_list e)"

definition output_port_list ::
  "(language \<Rightarrow> ml_format \<Rightarrow> string) \<Rightarrow> language \<Rightarrow> code_entity \<Rightarrow> error + string list" where
  "output_port_list cn lang e = map_raise (output_port_line cn lang) (get_output_assign e)"

definition get_declaration ::
  "(language \<Rightarrow> ml_format \<Rightarrow> string) \<Rightarrow> code_entity \<Rightarrow> bool \<Rightarrow> language option \<Rightarrow> error + string" where
  "get_declaration cn e final lang_arg =
     (let lang = (case lang_arg of None \<Rightarrow> language e | Some l \<Rightarrow> l)
      in case input_port_list cn lang e of
           Inl err \<Rightarrow> Inl err
         | Inr ins \<Rightarrow>
             (case output_port_list cn lang e of
                Inl err \<Rightarrow> Inl err
              | Inr outs \<Rightarrow>
                  (let port_format_list = join '';\<newline>  '' (ins @ outs);
                       port_desc = ''port (\<newline>  '' @ port_format_list @ ''\<newline>);'';
                       port_desc = (if length port_format_list = 0 then [] else port_desc)
                   in Inr (''entity '' @ name e @ '' is \<newline>'' @ port_desc
                           @ ''\<newline>end '' @ name e @ '';\<newline>\<newline>''))))"

text \<open>
  \<^verbatim>\<open>get_component_declaration\<close> formats an output with the precision of the port
  itself, not with \<^verbatim>\<open>get_output_precision\<close>.
\<close>

definition component_output_port_line ::
  "(language \<Rightarrow> ml_format \<Rightarrow> string) \<Rightarrow> language \<Rightarrow> ml_operation \<Rightarrow> error + string" where
  "component_output_port_line cn lang out =
     (case get_port_from_output out of
        Inl err \<Rightarrow> Inl err
      | Inr port \<Rightarrow>
          (case get_port_from_output out of
             Inl err \<Rightarrow> Inl err
           | Inr port' \<Rightarrow>
               (case get_code_name cn lang (get_precision port') of
                  Inl err \<Rightarrow> Inl err
                | Inr c \<Rightarrow> Inr (py_str (get_tag port) @ '' : out '' @ c))))"

definition component_output_port_list ::
  "(language \<Rightarrow> ml_format \<Rightarrow> string) \<Rightarrow> language \<Rightarrow> code_entity \<Rightarrow> error + string list" where
  "component_output_port_list cn lang e =
     map_raise (component_output_port_line cn lang) (get_output_assign e)"

definition get_component_declaration ::
  "(language \<Rightarrow> ml_format \<Rightarrow> string) \<Rightarrow> code_entity \<Rightarrow> bool \<Rightarrow> language option \<Rightarrow> error + string" where
  "get_component_declaration cn e final lang_arg =
     (let lang = (case lang_arg of None \<Rightarrow> language e | Some l \<Rightarrow> l)
      in case input_port_list cn lang e of
           Inl err \<Rightarrow> Inl err
         | Inr ins \<Rightarrow>
             (case component_output_port_list cn lang e of
                Inl err \<Rightarrow> Inl err
              | Inr outs \<Rightarrow>
                  (let port_format_list = join '';\<newline>  '' (ins @ outs);
                       port_desc = ''port (\<newline>  '' @ port_format_list @ ''\<newline>);'';
                       port_desc = (if length port_format_list = 0 then [] else port_desc)
                   in Inr (''component '' @ name e @ '' \<newline>'' @ port_desc
                           @ ''\<newline>end component;\<newline>\<newline>''))))"

subsection \<open>Definitions\<close>

definition get_scheme :: "code_entity \<Rightarrow> ml_operation" where
  "get_scheme e = Statement (process_list e @ get_output_assign e)"

text \<open>The keyword arguments that the entity passes to the code generator.\<close>

record gen_kwords =
  folded :: bool
  initial :: bool
  kw_language :: "language option"

text \<open>
  \<^verbatim>\<open>get_definition\<close>. Line 178 builds the code object with
  \<^verbatim>\<open>code_ctor = VHDLCodeObject\<close> and so evaluates that name first; lines 179 to 186, the
  statements that follow on the code object, are \<open>get_definition_body\<close>.
\<close>

definition get_definition_body ::
  "(language \<Rightarrow> ml_format \<Rightarrow> string) \<Rightarrow> code_entity \<Rightarrow> (gen_kwords, 'r) code_generator
     \<Rightarrow> language option \<Rightarrow> bool \<Rightarrow> code_object \<Rightarrow> error + code_object" where
  "get_definition_body cn e code_generator lang fld co =
     (let co = add_local_header ''ieee.std_logic_1164.all'' co;
          co = add_local_header ''ieee.std_logic_unsigned.all'' co;
          co = add_local_header ''ieee.numeric_std.all'' co
      in case get_declaration cn e False lang of
           Inl err \<Rightarrow> Inl err
         | Inr decl \<Rightarrow>
             (let co = emit decl co;
                  co = open_level False co
              in case code_generator co (Some (get_scheme e))
                        \<lparr>folded = fld, initial = False, kw_language = lang\<rparr> of
                   Inl err \<Rightarrow> Inl err
                 | Inr (r, co) \<Rightarrow> close_level False co))"

definition get_definition ::
  "(language \<Rightarrow> ml_format \<Rightarrow> string) \<Rightarrow> code_entity \<Rightarrow> (gen_kwords, 'r) code_generator
     \<Rightarrow> language option \<Rightarrow> bool \<Rightarrow> bool \<Rightarrow> error + code_object" where
  "get_definition cn e code_generator lang fld sc =
     (case lookup_global ''VHDLCodeObject'' of
        Inl err \<Rightarrow> Inl err
      | Inr code_ctor \<Rightarrow> get_definition_body cn e code_generator lang fld (NestedCode sc))"

definition add_definition ::
  "(language \<Rightarrow> ml_format \<Rightarrow> string) \<Rightarrow> code_entity \<Rightarrow> (gen_kwords, 'r) code_generator
     \<Rightarrow> language option \<Rightarrow> code_object \<Rightarrow> bool \<Rightarrow> bool \<Rightarrow> error + code_object" where
  "add_definition cn e code_generator lang co fld sc =
     (case get_declaration cn e False lang of
        Inl err \<Rightarrow> Inl err
      | Inr decl \<Rightarrow>
          (let co = emit decl co;
               co = emit (''architecture rtl of '' @ name e @ '' is\<newline>'') co;
               co = open_level True co
           in case code_generator co (Some (get_scheme e))
                     \<lparr>folded = fld, initial = False, kw_language = lang\<rparr> of
                Inl err \<Rightarrow> Inl err
              | Inr (r, co) \<Rightarrow>
                  (case close_level True co of
                     Inl err \<Rightarrow> Inl err
                   | Inr co \<Rightarrow> Inr (emit ''end architecture;\<newline>'' co))))"

section \<open>The RISC-V code generation table (\<^verbatim>\<open>riscv.py\<close>)\<close>

text \<open>The double-quote character of the assembly templates.\<close>

definition dq :: string where
  "dq = [CHR 0x22]"

definition rdcycleOperator :: cg_operator where
  "rdcycleOperator =
     AsmInlineOperator
       (''{\<newline>    unsigned long cycles;\<newline>    asm volatile ('' @ dq @ ''rdcycle %%0 '' @ dq
          @ '' : '' @ dq @ ''=r'' @ dq @ '' (cycles));\<newline>    %s = cycles;\<newline>}'')
       [(0, FO_Result 0)] 0"

definition RV_singleOpAsmTemplate :: "string \<Rightarrow> string \<Rightarrow> string \<Rightarrow> cg_operator" where
  "RV_singleOpAsmTemplate insn regDst regSrc =
     AsmInlineOperator
       (''asm volatile ('' @ dq @ insn @ '' %%0, %%1 '' @ dq @ '' : '' @ dq @ ''='' @ regDst @ dq
          @ '' (%s) : '' @ dq @ regSrc @ dq @ ''(%s));\<newline>'')
       [(0, FO_Result 0), (1, FO_Arg 0)] 1"

text \<open>
  \<^verbatim>\<open>lowerConversion(intFormat, targetFormat)\<close> returns the modifier; \<^verbatim>\<open>conv.get_input(0)\<close>
  raises on a node without operands.
\<close>

definition lowerConversion ::
  "ml_format \<Rightarrow> ml_format \<Rightarrow> ml_operation \<Rightarrow> error + ml_operation option" where
  "lowerConversion intFormat targetFormat conv =
     (case get_input conv 0 of
        Inl err \<Rightarrow> Inl err
      | Inr x \<Rightarrow> Inr (Some (Conversion (Conversion x (Some intFormat)) (Some targetFormat))))"

text \<open>
  Modelled from the spec: \<^verbatim>\<open>type_strict_match\<close> (\<^verbatim>\<open>generator_utility.py\<close> is not among
  the sources). The predicate built from a tuple of formats accepts exactly that tuple;
  the table lists the result format first and the operand formats after it.
\<close>

definition type_strict_match :: "ml_format list \<Rightarrow> ml_format option list \<Rightarrow> bool" where
  "type_strict_match type_tuple arg_tuple = (map Some type_tuple = arg_tuple)"

type_synonym signature_map = "((ml_format option list \<Rightarrow> bool) \<times> cg_operator) list"

type_synonym code_gen_table =
  "(op_class \<times> (specifier option \<times> ((ml_operation \<Rightarrow> bool) \<times> signature_map) list) list) list"

definition rv64CCodeGenTable :: code_gen_table where
  "rv64CCodeGenTable =
     [(K_SpecificOperation,
        [(Some ReadTimeStamp,
           [(\<lambda>_. True,
              [(type_strict_match [ML_Int64], rdcycleOperator)])])]),
      (K_NearestInteger,
        [(None,
           [(\<lambda>optree. True,
              [(type_strict_match [ML_Int32, ML_Binary32],
                  RV_singleOpAsmTemplate ''fcvt.w.s'' ''r'' ''f''),
               (type_strict_match [ML_Binary32, ML_Binary32],
                  ComplexOperator (lowerConversion ML_Int32 ML_Binary32) None),
               (type_strict_match [ML_Int64, ML_Binary64],
                  RV_singleOpAsmTemplate ''fcvt.l.d'' ''r'' ''f''),
               (type_strict_match [ML_Int32, ML_Binary64],
                  ComplexOperator (lowerConversion ML_Int64 ML_Int32) None),
               (type_strict_match [ML_Binary64, ML_Binary64],
                  ComplexOperator (lowerConversion ML_Int64 ML_Binary64) None)])])])]"

text \<open>
  Modelled from the spec: operator resolution (the code generator that walks the table
  is not among the sources). The node's class selects the first level; its specifier
  the second, with the \<^verbatim>\<open>None\<close> entry as the wildcard; the first shape predicate that
  holds selects the signature map; the first signature predicate that accepts the
  result format followed by the operand formats selects the operator.
\<close>

definition resolve :: "code_gen_table \<Rightarrow> ml_operation \<Rightarrow> error + cg_operator" where
  "resolve table node =
     (case map_of table (op_class node) of
        None \<Rightarrow> Inl UnresolvedOperatorError
      | Some by_specifier \<Rightarrow>
          (case (case map_of by_specifier (specifier node) of
                   Some l \<Rightarrow> Some l
                 | None \<Rightarrow> map_of by_specifier None) of
             None \<Rightarrow> Inl UnresolvedOperatorError
           | Some by_shape \<Rightarrow>
               (case find (\<lambda>entry. fst entry node) by_shape of
                  None \<Rightarrow> Inl UnresolvedOperatorError
                | Some (_, by_signature) \<Rightarrow>
                    (case find (\<lambda>entry. fst entry
                                  (get_precision node # map get_precision (inputs node)))
                            by_signature of
                       None \<Rightarrow> Inl UnresolvedOperatorError
                     | Some (_, operator) \<Rightarrow> Inr operator))))"

section \<open>Sequences of calls on an entity\<close>

text \<open>
  The calls that change an entity while it is built. A call that raises leaves the
  entity as the exception finds it, so every call has a state after it.
\<close>

datatype entity_call =
    Call_add_input_variable string "ml_format option"
  | Call_add_output_variable string ml_operation
  | Call_add_input_signal string "ml_format option"
  | Call_add_output_signal string ml_operation
  | Call_start_new_stage
  | Call_set_current_stage int
  | Call_add_process ml_operation
  | Call_register_new_input_variable ml_operation
  | Call_clear_arg_list

fun call :: "entity_call \<Rightarrow> code_entity \<Rightarrow> code_entity" where
  "call (Call_add_input_variable n t) e = snd (add_input_variable n t e)"
| "call (Call_add_output_variable n v) e = snd (add_output_variable n v e)"
| "call (Call_add_input_signal n t) e = snd (add_input_signal n t e)"
| "call (Call_add_output_signal n v) e = snd (add_output_signal n v e)"
| "call Call_start_new_stage e = start_new_stage e"
| "call (Call_set_current_stage s) e = set_current_stage s e"
| "call (Call_add_process p) e = add_process p e"
| "call (Call_register_new_input_variable v) e = register_new_input_variable v e"
| "call Call_clear_arg_list e = clear_arg_list e"

text \<open>The entity before the first call and after each call, in order.\<close>

fun run_calls :: "entity_call list \<Rightarrow> code_entity \<Rightarrow> code_entity list" where
  "run_calls [] e = [e]"
| "run_calls (c # cs) e = e # run_calls cs (call c e)"

fun is_set_current_stage :: "entity_call \<Rightarrow> bool" where
  "is_set_current_stage (Call_set_current_stage s) = True"
| "is_set_current_stage _ = False"

text \<open>
  Modelled from the spec: the creation of a node (the attribute registry of
  \<^verbatim>\<open>core/attributes.py\<close> is not among the sources). A node created for an entity
  takes the default of the entity's \<^verbatim>\<open>init_stage\<close> attribute as its stage tag.
\<close>

definition created_init_stage :: "code_entity \<Rightarrow> int" where
  "created_init_stage e = default_value (init_stage_attribute e)"

section \<open>The interface text in the words of the specification\<close>

text \<open>
  The port block is empty without ports and a \<^verbatim>\<open>port (...)\<close> clause around the joined
  port lines otherwise; an entity wraps it in \<^verbatim>\<open>entity <name> is\<close> and
  \<^verbatim>\<open>end <name>;\<close>, a component in \<^verbatim>\<open>component <name>\<close> and \<^verbatim>\<open>end component;\<close>.
\<close>

definition spec_in_line :: "(language \<Rightarrow> ml_format \<Rightarrow> string) \<Rightarrow> language \<Rightarrow> string \<times> ml_format \<Rightarrow> string" where
  "spec_in_line cn lang port = fst port @ '' : in '' @ cn lang (snd port)"

definition spec_out_line :: "(language \<Rightarrow> ml_format \<Rightarrow> string) \<Rightarrow> language \<Rightarrow> string \<times> ml_format \<Rightarrow> string" where
  "spec_out_line cn lang port = fst port @ '' : out '' @ cn lang (snd port)"

definition spec_port_block :: "string list \<Rightarrow> string" where
  "spec_port_block port_lines =
     (if port_lines = [] then []
      else ''port (\<newline>  '' @ join '';\<newline>  '' port_lines @ ''\<newline>);'')"


definition spec_component_text :: "string \<Rightarrow> string \<Rightarrow> string" where
  "spec_component_text n port_block =
     ''component '' @ n @ '' \<newline>'' @ port_block @ ''\<newline>end component;\<newline>\<newline>''"

text \<open>
  An input port is a node with a name and a format. An output port is an assignment, by
  a \<^verbatim>\<open>ReferenceAssign\<close> node, of a value to a port node with a name; its format is the
  format of the port node and, when the port node has none, the format of the value.
\<close>

definition is_input_port :: "ml_operation \<Rightarrow> string \<times> ml_format \<Rightarrow> bool" where
  "is_input_port inp port \<longleftrightarrow> tag inp = Some (fst port) \<and> precision inp = Some (snd port)"


text \<open>An output assignment whose port node carries a name and a format of its own.\<close>

definition is_component_output_port :: "ml_operation \<Rightarrow> string \<times> ml_format \<Rightarrow> bool" where
  "is_component_output_port out port \<longleftrightarrow>
     (case inputs out of
        p # rest \<Rightarrow> tag p = Some (fst port) \<and> precision p = Some (snd port)
      | _ \<Rightarrow> False)"

text \<open>\<^verbatim>\<open>text.endswith(suffix)\<close>.\<close>

definition endswith :: "string \<Rightarrow> string \<Rightarrow> bool" where
  "endswith text suffix \<longleftrightarrow>
     length suffix \<le> length text \<and> drop (length text - length suffix) text = suffix"

section \<open>Example inputs\<close>

definition example_code_name :: "language \<Rightarrow> ml_format \<Rightarrow> string" where
  "example_code_name lang f =
     (case f of
        ML_Int32 \<Rightarrow> ''I32'' | ML_Int64 \<Rightarrow> ''I64''
      | ML_Binary32 \<Rightarrow> ''F32'' | ML_Binary64 \<Rightarrow> ''F64''
      | ML_Custom s \<Rightarrow> s)"

definition foo :: code_entity where
  "foo = CodeEntity ''foo'' [] [] None VHDL_Code"

definition sum_node :: ml_operation where
  "sum_node =
     ML_Operation (K_Other ''Addition'') None
       [Signal ''a'' (Some ML_Binary32) None, Signal ''b'' (Some ML_Binary32) None]
       (Some ML_Binary32) None None"

definition adder :: code_entity where
  "adder =
     snd (add_output_signal ''s'' sum_node
       (snd (add_input_signal ''b'' (Some ML_Binary32)
         (snd (add_input_signal ''a'' (Some ML_Binary32)
           (CodeEntity ''adder'' [] [] None VHDL_Code))))))"

text \<open>An entity whose output port was created before the format of its value was set.\<close>

definition late :: code_entity where
  "late =
     CodeEntity ''late'' []
       [(''s'', ReferenceAssign (Signal ''s'' None (Some Output))
                  (ML_Operation (K_Other ''Addition'') None [] (Some ML_Binary32) None None))]
       None VHDL_Code"


definition modifier_none :: "ml_operation \<Rightarrow> error + ml_operation option" where
  "modifier_none optree = Inr None"

text \<open>A code generator that accepts every node, \<^verbatim>\<open>None\<close> too, and emits nothing.\<close>

definition accepting_generator :: "code_object \<Rightarrow> ml_operation option \<Rightarrow> 'k \<Rightarrow> error + (string \<times> code_object)" where
  "accepting_generator co node kwords = Inr (''tmp'', co)"

text \<open>A code generator that emits the tags of the statements it is given.\<close>

definition tag_generator :: "code_object \<Rightarrow> ml_operation option \<Rightarrow> 'k \<Rightarrow> error + (string \<times> code_object)" where
  "tag_generator co node kwords =
     (case node of
        None \<Rightarrow> Inl AttributeError
      | Some n \<Rightarrow> Inr (''tmp'', emit (concat (map (\<lambda>x. py_str (get_tag x) @ '';\<newline>'') (inputs n))) co))"

text \<open>An operator back end that emits the template of an inline assembly operator.\<close>

definition template_base ::
  "cg_operator \<Rightarrow> ('k, string) code_generator \<Rightarrow> code_object \<Rightarrow> ml_operation \<Rightarrow> string list
     \<Rightarrow> unit option \<Rightarrow> 'k \<Rightarrow> error + (string \<times> code_object)" where
  "template_base operator cg co optree arg_tuple gpp kwords =
     (case operator of
        AsmInlineOperator t m a \<Rightarrow> Inr (''asm'', emit t co)
      | ComplexOperator m b \<Rightarrow> Inl (GenerationError ''not a template''))"

definition nearest_f64 :: ml_operation where
  "nearest_f64 =
     ML_Operation K_NearestInteger None [Variable ''x'' (Some ML_Binary64) None]
       (Some ML_Binary64) None None"

section \<open>Complex operators\<close>

text \<open>
  C1 (as the code has it). When the modifier of a complex operator returns no
  replacement and no backup operator is configured, \<^verbatim>\<open>generate_expr\<close> raises nothing of
  its own: it hands \<^verbatim>\<open>None\<close> to the code generator in place of a node and returns
  whatever the code generator does with it.
\<close>

theorem complex_operator_no_backup:
  assumes "modifier optree = Inr None"
  shows "generate_expr base (ComplexOperator modifier None) cg co optree arg_tuple gpp kwords
         = cg co None kwords"
  using assms by simp

theorem complex_operator_no_backup_witness:
  "modifier_none (Variable ''x'' None None) = Inr None
   \<and> generate_expr template_base (ComplexOperator modifier_none None) accepting_generator
        (NestedCode False) (Variable ''x'' None None) [] None ()
      = accepting_generator (NestedCode False) None ()"
  using complex_operator_no_backup [of modifier_none "Variable ''x'' None None" template_base
      accepting_generator "NestedCode False" "[]" None "()"]
  by (simp add: modifier_none_def)

text \<open>
  With a code generator that accepts \<^verbatim>\<open>None\<close>, generation succeeds although the modifier
  returned nothing and there is no backup operator.
\<close>

theorem rewrite_exhausted_counterexample:
  "generate_expr template_base (ComplexOperator modifier_none None) accepting_generator
     (NestedCode False) (Variable ''x'' None None) [] None ()
   = Inr (''tmp'', NestedCode False)"
  by (simp add: modifier_none_def accepting_generator_def)

text \<open>
  C4. When the modifier returns no replacement and a backup operator is configured, the
  result is the backup operator's \<^verbatim>\<open>generate_expr\<close> on the same code generator, code
  object, node and argument tuple; the code generator is not asked to generate or to
  resolve anything first. For a backup that is an inline assembly operator this is the
  operator back end applied to the original node.
\<close>

theorem complex_operator_backup:
  assumes "modifier optree = Inr None"
  shows "generate_expr base (ComplexOperator modifier (Some backup)) cg co optree arg_tuple gpp kwords
         = generate_expr base backup cg co optree arg_tuple gpp kwords
       \<and> generate_expr base (ComplexOperator modifier (Some (AsmInlineOperator t m a))) cg co optree
           arg_tuple gpp kwords
         = base (AsmInlineOperator t m a) cg co optree arg_tuple gpp kwords"
  using assms by simp

theorem complex_operator_backup_witness:
  "modifier_none nearest_f64 = Inr None
   \<and> generate_expr template_base
        (ComplexOperator modifier_none (Some (RV_singleOpAsmTemplate ''fcvt.l.d'' ''r'' ''f'')))
        accepting_generator (NestedCode False) nearest_f64 [''x''] None ()
      = template_base (RV_singleOpAsmTemplate ''fcvt.l.d'' ''r'' ''f'') accepting_generator
          (NestedCode False) nearest_f64 [''x''] None ()"
  using complex_operator_backup [of modifier_none nearest_f64 template_base
      "RV_singleOpAsmTemplate ''fcvt.l.d'' ''r'' ''f''" accepting_generator "NestedCode False"
      "[''x'']" None "()"]
  by (simp add: modifier_none_def RV_singleOpAsmTemplate_def)

section \<open>Lowering of round-to-nearest on RISC-V\<close>

text \<open>
  C9. Under the rv64 C table, a \<^verbatim>\<open>NearestInteger\<close> node of format binary64 with one
  binary64 operand resolves to the complex operator built from
  \<^verbatim>\<open>lowerConversion(ML_Int64, ML_Binary64)\<close>; its modifier returns the conversion to
  binary64 of the conversion to int64 of the node's first operand, and generation
  continues on that replacement.
\<close>

theorem rv64_nearest_integer_binary64:
  assumes "op_class node = K_NearestInteger"
    and "get_precision node = Some ML_Binary64"
    and "inputs node = [x]"
    and "get_precision x = Some ML_Binary64"
  shows "resolve rv64CCodeGenTable node
           = Inr (ComplexOperator (lowerConversion ML_Int64 ML_Binary64) None)
       \<and> lowerConversion ML_Int64 ML_Binary64 node
           = Inr (Some (Conversion (Conversion x (Some ML_Int64)) (Some ML_Binary64)))
       \<and> generate_expr base (ComplexOperator (lowerConversion ML_Int64 ML_Binary64) None) cg co node
           arg_tuple gpp kwords
           = cg co (Some (Conversion (Conversion x (Some ML_Int64)) (Some ML_Binary64))) kwords"
proof -
  have sig: "get_precision node # map get_precision (inputs node)
             = [Some ML_Binary64, Some ML_Binary64]"
    using assms by simp
  have wildcard: "(case map_of [(None :: specifier option, l)] (specifier node) of
                 Some l' \<Rightarrow> Some l' | None \<Rightarrow> map_of [(None, l)] None) = Some l" for l :: "'z"
    by (cases "specifier node") simp_all
  have low: "lowerConversion ML_Int64 ML_Binary64 node
           = Inr (Some (Conversion (Conversion x (Some ML_Int64)) (Some ML_Binary64)))"
    using assms by (simp add: lowerConversion_def get_input_def)
  have res: "resolve rv64CCodeGenTable node
           = Inr (ComplexOperator (lowerConversion ML_Int64 ML_Binary64) None)"
    unfolding resolve_def rv64CCodeGenTable_def
    using assms(1) sig by (simp add: wildcard type_strict_match_def)
  show ?thesis using low res by simp
qed

theorem rv64_nearest_integer_binary64_witness:
  "op_class nearest_f64 = K_NearestInteger
   \<and> get_precision nearest_f64 = Some ML_Binary64
   \<and> inputs nearest_f64 = [Variable ''x'' (Some ML_Binary64) None]
   \<and> get_precision (Variable ''x'' (Some ML_Binary64) None) = Some ML_Binary64
   \<and> resolve rv64CCodeGenTable nearest_f64
       = Inr (ComplexOperator (lowerConversion ML_Int64 ML_Binary64) None)
   \<and> lowerConversion ML_Int64 ML_Binary64 nearest_f64
       = Inr (Some (Conversion (Conversion (Variable ''x'' (Some ML_Binary64) None) (Some ML_Int64))
                (Some ML_Binary64)))"
  using rv64_nearest_integer_binary64 [of nearest_f64 "Variable ''x'' (Some ML_Binary64) None"
      template_base accepting_generator "NestedCode False" "[]" None "()"]
  by (simp add: nearest_f64_def get_precision_def Variable_def)

section \<open>Facts about the list comprehensions and the example entities\<close>

lemma map_raise_Inr_iff: "map_raise f xs = Inr ys \<longleftrightarrow> map f xs = map Inr ys"
proof (induction xs arbitrary: ys)
  case Nil
  then show ?case by auto
next
  case (Cons x xs)
  show ?case
  proof (cases "f x")
    case (Inl err)
    then show ?thesis by (cases ys) auto
  next
    case (Inr y)
    show ?thesis
    proof (cases "map_raise f xs")
      case (Inl err)
      have "map f xs \<noteq> map Inr zs" for zs
        using Cons.IH [of zs] Inl by simp
      then show ?thesis using Inl Inr by (cases ys) auto
    next
      case inner: (Inr zs)
      then have "map f xs = map Inr zs" using Cons.IH by simp
      then show ?thesis using inner Inr by (cases ys) auto
    qed
  qed
qed

lemma map_raise_snoc:
  "map_raise f xs = Inr ys \<Longrightarrow> f x = Inr y \<Longrightarrow> map_raise f (xs @ [x]) = Inr (ys @ [y])"
  by (simp add: map_raise_Inr_iff)

lemma map_raise_nth:
  assumes "map_raise f xs = Inr ys" and "i < length xs"
  shows "f (xs ! i) = Inr (ys ! i)"
proof -
  have eq: "map f xs = map Inr ys" using assms(1) by (simp add: map_raise_Inr_iff)
  then have "length xs = length ys" by (metis length_map)
  then show ?thesis using eq assms(2) by (metis nth_map)
qed

lemma output_name_registered: "map_of al n = Some v \<Longrightarrow> n \<in> fst ` set al"
  by (metis domI dom_map_of_conv_image_fst)

lemma sum_node_precision: "precision sum_node = Some ML_Binary32"
  by (simp add: sum_node_def)

lemma adder_output_map:
  "output_map adder = [(''s'', ReferenceAssign (Signal ''s'' (Some ML_Binary32) (Some Output)) sum_node)]"
  by (simp add: adder_def add_output_signal_def add_input_signal_def CodeEntity_def
      instanciate_dyn_attributes_def get_precision_def Let_def sum_node_precision)

lemma adder_arg_list:
  "arg_list adder = [Signal ''a'' (Some ML_Binary32) None, Signal ''b'' (Some ML_Binary32) None]"
  by (simp add: adder_def add_output_signal_def add_input_signal_def CodeEntity_def
      instanciate_dyn_attributes_def Let_def)

lemma adder_input_port_list:
  "input_port_list example_code_name VHDL_Code adder = Inr [''a : in F32'', ''b : in F32'']"
  by (simp add: input_port_list_def adder_arg_list input_port_line_def get_code_name_def
      py_str_def Signal_def get_tag_def get_precision_def example_code_name_def)

section \<open>Registration of ports\<close>

text \<open>
  For a name that is already bound in the output map, both registration methods raise
  before the assignment to the map, so the entity is left as it was. What they raise is
  the NameError for \<^verbatim>\<open>Log\<close>, which the module does not import.
\<close>

lemma duplicate_output_raises:
  assumes "map_of (output_map e) n = Some first"
  shows "add_output_variable n v e = (Some (NameError ''Log''), e)
       \<and> add_output_signal n v e = (Some (NameError ''Log''), e)"
proof -
  have reg: "n \<in> fst ` set (output_map e)"
    using assms by (rule output_name_registered)
  have unbound: "lookup_global ''Log'' = Inl (NameError ''Log'')"
    by (simp add: lookup_global_def code_entity_globals_def)
  have a: "add_output_variable n v e = (Some (NameError ''Log''), e)"
    using reg by (simp add: add_output_variable_def unbound)
  have b: "add_output_signal n v e = (Some (NameError ''Log''), e)"
    using reg by (simp add: add_output_signal_def unbound)
  show ?thesis using a b by simp
qed

text \<open>
  C3. On the entity \<open>adder\<close>, whose output \<open>s\<close> is registered, a second
  \<^verbatim>\<open>add_output_signal\<close> or \<^verbatim>\<open>add_output_variable\<close> with the name \<open>s\<close> fails and leaves the
  first registration in the output map, as the claim says; but the error is the
  NameError for the unbound name \<^verbatim>\<open>Log\<close>, not the fatal report of a pre-existing output
  name that lines 63 and 75 are written to make.
\<close>

theorem duplicate_output_name_error:
  "add_output_signal ''s'' nearest_f64 adder = (Some (NameError ''Log''), adder)
   \<and> add_output_variable ''s'' nearest_f64 adder = (Some (NameError ''Log''), adder)
   \<and> NameError ''Log'' \<noteq> DuplicateOutputNameError ''s''
   \<and> map_of (output_map (snd (add_output_signal ''s'' nearest_f64 adder))) ''s''
     = Some (ReferenceAssign (Signal ''s'' (Some ML_Binary32) (Some Output)) sum_node)
   \<and> map_of (output_map (snd (add_output_variable ''s'' nearest_f64 adder))) ''s''
     = Some (ReferenceAssign (Signal ''s'' (Some ML_Binary32) (Some Output)) sum_node)"
proof -
  have first: "map_of (output_map adder) ''s''
     = Some (ReferenceAssign (Signal ''s'' (Some ML_Binary32) (Some Output)) sum_node)"
    by (simp add: adder_output_map)
  show ?thesis
    using duplicate_output_raises [OF first, of nearest_f64] first
    by (simp add: DuplicateOutputNameError_def)
qed

text \<open>
  C10. Registering an input under the name of an input that is already in the argument
  list does not fail. The new node is appended to the argument list, the name is bound
  to the new node in the argument map, so that \<^verbatim>\<open>get_input_by_tag\<close> returns the new node,
  and the list of input port lines keeps the old line for that name and gains a second
  line with the same name.
\<close>

theorem duplicate_input_accepted:
  assumes "i < length (arg_list e)"
    and "get_tag (arg_list e ! i) = Some n"
    and "get_precision (arg_list e ! i) = Some g"
    and "input_port_list cn lang e = Inr ls"
  shows "arg_list (snd (add_input_variable n vt e)) = arg_list e @ [Variable n vt None]
       \<and> arg_list (snd (add_input_signal n vt e)) = arg_list e @ [Signal n vt None]
       \<and> get_input_by_tag (snd (add_input_variable n vt e)) (Some n) = Some (Variable n vt None)
       \<and> get_input_by_tag (snd (add_input_signal n vt e)) (Some n) = Some (Signal n vt None)
       \<and> ls ! i = n @ '' : in '' @ cn lang g
       \<and> input_port_list cn lang (snd (add_input_variable n (Some f) e))
           = Inr (ls @ [n @ '' : in '' @ cn lang f])
       \<and> input_port_list cn lang (snd (add_input_signal n (Some f) e))
           = Inr (ls @ [n @ '' : in '' @ cn lang f])"
proof -
  have old: "input_port_line cn lang (arg_list e ! i) = Inr (ls ! i)"
    using assms(1,4) unfolding input_port_list_def by (rule map_raise_nth [rotated])
  have line: "ls ! i = n @ '' : in '' @ cn lang g"
    using old assms(2,3) by (simp add: input_port_line_def get_code_name_def py_str_def)
  have var: "input_port_line cn lang (Variable n (Some f) None) = Inr (n @ '' : in '' @ cn lang f)"
    by (simp add: input_port_line_def get_code_name_def py_str_def Variable_def
        get_tag_def get_precision_def)
  have sig: "input_port_line cn lang (Signal n (Some f) None) = Inr (n @ '' : in '' @ cn lang f)"
    by (simp add: input_port_line_def get_code_name_def py_str_def Signal_def
        get_tag_def get_precision_def)
  have pv: "input_port_list cn lang (snd (add_input_variable n (Some f) e))
           = Inr (ls @ [n @ '' : in '' @ cn lang f])"
    using assms(4) var
    by (simp add: input_port_list_def add_input_variable_def Let_def map_raise_snoc)
  have ps: "input_port_list cn lang (snd (add_input_signal n (Some f) e))
           = Inr (ls @ [n @ '' : in '' @ cn lang f])"
    using assms(4) sig
    by (simp add: input_port_list_def add_input_signal_def Let_def map_raise_snoc)
  show ?thesis
    using line pv ps
    by (simp add: add_input_variable_def add_input_signal_def get_input_by_tag_def Let_def)
qed

theorem duplicate_input_accepted_witness:
  "(0::nat) < length (arg_list adder)
   \<and> get_tag (arg_list adder ! 0) = Some ''a''
   \<and> get_precision (arg_list adder ! 0) = Some ML_Binary32
   \<and> input_port_list example_code_name VHDL_Code adder = Inr [''a : in F32'', ''b : in F32'']
   \<and> get_input_by_tag (snd (add_input_signal ''a'' (Some ML_Int32) adder)) (Some ''a'')
       = Some (Signal ''a'' (Some ML_Int32) None)
   \<and> input_port_list example_code_name VHDL_Code (snd (add_input_signal ''a'' (Some ML_Int32) adder))
       = Inr [''a : in F32'', ''b : in F32'', ''a : in I32'']"
  using duplicate_input_accepted [of 0 adder "''a''" ML_Binary32 example_code_name VHDL_Code
      "[''a : in F32'', ''b : in F32'']" "Some ML_Int32" ML_Int32]
  by (simp add: adder_arg_list adder_input_port_list Signal_def get_tag_def get_precision_def
      example_code_name_def)

section \<open>Pipeline stages\<close>

lemma call_stage_mono:
  "\<not> is_set_current_stage c \<Longrightarrow> current_stage e \<le> current_stage (call c e)"
  by (cases c)
    (simp_all add: add_input_variable_def add_input_signal_def add_output_variable_def
      add_output_signal_def start_new_stage_def set_current_stage_def add_process_def
      register_new_input_variable_def clear_arg_list_def Let_def split: option.splits)

lemma run_calls_stage_lower:
  "list_all (\<lambda>c. \<not> is_set_current_stage c) cs \<Longrightarrow> s \<in> set (run_calls cs e)
     \<Longrightarrow> current_stage e \<le> current_stage s"
proof (induction cs arbitrary: e)
  case Nil
  then show ?case by simp
next
  case (Cons c cs)
  from Cons.prems(2) consider "s = e" | "s \<in> set (run_calls cs (call c e))" by auto
  then show ?case
  proof cases
    case 1
    then show ?thesis by simp
  next
    case 2
    have "current_stage e \<le> current_stage (call c e)"
      using Cons.prems(1) by (simp add: call_stage_mono)
    moreover have "current_stage (call c e) \<le> current_stage s"
      using Cons.IH [OF _ 2] Cons.prems(1) by simp
    ultimately show ?thesis by simp
  qed
qed

lemma run_calls_sorted:
  "list_all (\<lambda>c. \<not> is_set_current_stage c) cs \<Longrightarrow> sorted (map current_stage (run_calls cs e))"
proof (induction cs arbitrary: e)
  case Nil
  then show ?case by simp
next
  case (Cons c cs)
  have "\<forall>s \<in> set (run_calls cs (call c e)). current_stage e \<le> current_stage s"
  proof
    fix s assume s: "s \<in> set (run_calls cs (call c e))"
    have "current_stage e \<le> current_stage (call c e)"
      using Cons.prems by (simp add: call_stage_mono)
    moreover have "current_stage (call c e) \<le> current_stage s"
      using run_calls_stage_lower [OF _ s] Cons.prems by simp
    ultimately show "current_stage e \<le> current_stage s" by simp
  qed
  then show ?case using Cons by simp
qed

lemma call_keeps_tag:
  "created_init_stage e = current_stage e
     \<Longrightarrow> created_init_stage (call c e) = current_stage (call c e)"
  by (cases c)
    (simp_all add: created_init_stage_def add_input_variable_def add_input_signal_def
      add_output_variable_def add_output_signal_def start_new_stage_def set_current_stage_def
      add_process_def register_new_input_variable_def clear_arg_list_def Let_def
      split: option.splits)

lemma run_calls_keep_tag:
  "created_init_stage e = current_stage e
     \<Longrightarrow> list_all (\<lambda>s. created_init_stage s = current_stage s) (run_calls cs e)"
  by (induction cs arbitrary: e) (simp_all add: call_keeps_tag)

lemma CodeEntity_stage:
  "current_stage (CodeEntity n args outs co lang) = 0"
  "created_init_stage (CodeEntity n args outs co lang) = 0"
  by (simp_all add: CodeEntity_def instanciate_dyn_attributes_def created_init_stage_def
      AttributeCtor_def)

text \<open>
  C8 (as the code has it). A new entity is at stage 0 and \<^verbatim>\<open>start_new_stage\<close> raises the
  stage by one. Across any sequence of calls that does not call \<^verbatim>\<open>set_current_stage\<close>
  directly, the stage never decreases. After every call of any sequence on a new entity,
  \<^verbatim>\<open>set_current_stage\<close> included, the default of the \<^verbatim>\<open>init_stage\<close> attribute, with which
  a node created then is tagged, is the current stage.
\<close>

theorem stage_counter:
  "current_stage (CodeEntity n args outs co lang) = 0
   \<and> current_stage (start_new_stage e) = current_stage e + 1
   \<and> created_init_stage (start_new_stage e) = current_stage e + 1
   \<and> (list_all (\<lambda>c. \<not> is_set_current_stage c) cs
        \<longrightarrow> sorted (map current_stage (run_calls cs e)))
   \<and> list_all (\<lambda>s. created_init_stage s = current_stage s)
        (run_calls cs (CodeEntity n args outs co lang))"
proof -
  have a: "current_stage (start_new_stage e) = current_stage e + 1"
    by (simp add: start_new_stage_def set_current_stage_def)
  have b: "created_init_stage (start_new_stage e) = current_stage e + 1"
    by (simp add: start_new_stage_def set_current_stage_def created_init_stage_def)
  have c: "list_all (\<lambda>s. created_init_stage s = current_stage s)
        (run_calls cs (CodeEntity n args outs co lang))"
    by (rule run_calls_keep_tag) (simp add: CodeEntity_stage)
  show ?thesis using a b c by (simp add: CodeEntity_stage run_calls_sorted)
qed

theorem stage_counter_witness:
  "list_all (\<lambda>c. \<not> is_set_current_stage c)
      [Call_start_new_stage, Call_add_input_signal ''a'' (Some ML_Binary32), Call_start_new_stage]
   \<and> map current_stage
        (run_calls [Call_start_new_stage, Call_add_input_signal ''a'' (Some ML_Binary32),
                    Call_start_new_stage] foo) = [0, 1, 1, 2]
   \<and> sorted (map current_stage
        (run_calls [Call_start_new_stage, Call_add_input_signal ''a'' (Some ML_Binary32),
                    Call_start_new_stage] foo))
   \<and> list_all (\<lambda>s. created_init_stage s = current_stage s)
        (run_calls [Call_start_new_stage, Call_add_input_signal ''a'' (Some ML_Binary32),
                    Call_start_new_stage] foo)"
  using stage_counter [of "''foo''" "[]" "[]" None VHDL_Code foo
      "[Call_start_new_stage, Call_add_input_signal ''a'' (Some ML_Binary32), Call_start_new_stage]"]
  by (simp add: foo_def CodeEntity_def instanciate_dyn_attributes_def start_new_stage_def
      set_current_stage_def add_input_signal_def Let_def)

text \<open>
  \<^verbatim>\<open>set_current_stage\<close> stores the stage it is given, so a call after \<^verbatim>\<open>start_new_stage\<close>
  can lower the stage.
\<close>

theorem stage_counter_counterexample:
  "map current_stage (run_calls [Call_start_new_stage, Call_set_current_stage 0] foo) = [0, 1, 0]
   \<and> \<not> sorted (map current_stage (run_calls [Call_start_new_stage, Call_set_current_stage 0] foo))"
  by (simp add: foo_def CodeEntity_def instanciate_dyn_attributes_def start_new_stage_def
      set_current_stage_def)

section \<open>Declaration text\<close>

lemma join_Nil_iff:
  "list_all (\<lambda>l. l \<noteq> []) ls \<Longrightarrow> join sep ls = [] \<longleftrightarrow> ls = []"
  by (induction sep ls rule: join.induct) simp_all

lemma map_raise_all2:
  assumes "list_all2 (\<lambda>x y. f x = Inr (g y)) xs ys"
  shows "map_raise f xs = Inr (map g ys)"
  using assms by (induction rule: list_all2_induct) simp_all

lemma input_line_of_port:
  "is_input_port inp port \<Longrightarrow> input_port_line cn lang inp = Inr (spec_in_line cn lang port)"
  by (simp add: is_input_port_def input_port_line_def get_code_name_def py_str_def
      spec_in_line_def get_tag_def get_precision_def)


lemma spec_lines_nonempty:
  "list_all (\<lambda>l. l \<noteq> [])
     (map (spec_in_line cn lang) in_ports @ map (spec_out_line cn lang) out_ports)"
  by (auto simp: list_all_iff spec_in_line_def spec_out_line_def)

lemma component_output_line_of_port:
  "is_component_output_port out port
     \<Longrightarrow> component_output_port_line cn lang out = Inr (spec_out_line cn lang port)"
  by (auto simp: is_component_output_port_def component_output_port_line_def get_code_name_def
      py_str_def spec_out_line_def get_port_from_output_def get_input_def get_tag_def
      get_precision_def split: list.splits)

lemma adder_get_output_assign:
  "get_output_assign adder
     = [ReferenceAssign (Signal ''s'' (Some ML_Binary32) (Some Output)) sum_node]"
  by (simp add: get_output_assign_def adder_output_map)

lemma foo_declaration:
  "get_declaration cn foo final lang = Inr ''entity foo is \<newline>\<newline>end foo;\<newline>\<newline>''"
  by (simp add: get_declaration_def input_port_list_def output_port_list_def
      get_output_assign_def foo_def CodeEntity_def instanciate_dyn_attributes_def)

lemma foo_name: "name foo = ''foo''"
  by (simp add: foo_def CodeEntity_def instanciate_dyn_attributes_def)

lemma adder_name: "name adder = ''adder''"
  by (simp add: adder_def add_output_signal_def add_input_signal_def CodeEntity_def
      instanciate_dyn_attributes_def Let_def)

lemma adder_language: "language adder = VHDL_Code"
  by (simp add: adder_def add_output_signal_def add_input_signal_def CodeEntity_def
      instanciate_dyn_attributes_def Let_def)

lemma adder_process_list: "process_list adder = []"
  by (simp add: adder_def add_output_signal_def add_input_signal_def CodeEntity_def
      instanciate_dyn_attributes_def Let_def)

lemma adder_output_port_list:
  "output_port_list example_code_name VHDL_Code adder = Inr [''s : out F32'']"
  by (simp add: output_port_list_def get_output_assign_def adder_output_map output_port_line_def
      get_port_from_output_def get_output_precision_def get_input_def ReferenceAssign_def
      Signal_def get_tag_def get_precision_def get_code_name_def py_str_def example_code_name_def)

lemma adder_declaration:
  "get_declaration example_code_name adder final None
     = Inr ''entity adder is \<newline>port (\<newline>  a : in F32;\<newline>  b : in F32;\<newline>  s : out F32\<newline>);\<newline>end adder;\<newline>\<newline>''"
  by (simp add: get_declaration_def adder_language adder_name adder_input_port_list
      adder_output_port_list)

lemma adder_scheme:
  "get_scheme adder
     = Statement [ReferenceAssign (Signal ''s'' (Some ML_Binary32) (Some Output)) sum_node]"
  by (simp add: get_scheme_def get_output_assign_def adder_output_map adder_process_list)

lemma tag_generator_adder:
  "tag_generator co (Some (get_scheme adder)) kw = Inr (''tmp'', emit ''None;\<newline>'' co)"
  by (simp add: tag_generator_def adder_scheme Statement_def ReferenceAssign_def get_tag_def
      py_str_def)



text \<open>The entity without ports of the specification's example.\<close>

lemma foo_declaration_example:
  "get_declaration example_code_name foo True None
     = Inr ''entity foo is \<newline>\<newline>end foo;\<newline>\<newline>''"
  by (rule foo_declaration)

text \<open>The declaration of an entity with two inputs of the same name.\<close>

lemma duplicate_input_declaration_example:
  "get_declaration example_code_name (snd (add_input_signal ''a'' (Some ML_Int32) adder)) True None
     = Inr ''entity adder is \<newline>port (\<newline>  a : in F32;\<newline>  b : in F32;\<newline>  a : in I32;\<newline>  s : out F32\<newline>);\<newline>end adder;\<newline>\<newline>''"
proof -
  let ?e = "snd (add_input_signal ''a'' (Some ML_Int32) adder)"
  have ins: "input_port_list example_code_name VHDL_Code ?e
             = Inr [''a : in F32'', ''b : in F32'', ''a : in I32'']"
    by (simp add: input_port_list_def add_input_signal_def Let_def adder_arg_list
        input_port_line_def get_code_name_def py_str_def Signal_def get_tag_def
        get_precision_def example_code_name_def)
  have outs: "output_port_list example_code_name VHDL_Code ?e = Inr [''s : out F32'']"
    using adder_output_port_list
    by (simp add: output_port_list_def get_output_assign_def add_input_signal_def Let_def)
  have nm: "name ?e = ''adder''" and lang: "language ?e = VHDL_Code"
    by (simp_all add: add_input_signal_def Let_def adder_name adder_language)
  show ?thesis
    unfolding get_declaration_def by (simp add: ins outs nm lang)
qed

text \<open>
  The component declaration has the same port block in the component wrapper whenever
  every output port carries a format of its own.
\<close>

lemma component_declaration_text:
  assumes "list_all2 is_input_port (arg_list e) in_ports"
    and "list_all2 is_component_output_port (get_output_assign e) out_ports"
  shows "(let lang = (case lang_arg of None \<Rightarrow> language e | Some l \<Rightarrow> l)
          in get_component_declaration cn e final lang_arg
             = Inr (spec_component_text (name e)
                 (spec_port_block (map (spec_in_line cn lang) in_ports
                                   @ map (spec_out_line cn lang) out_ports))))"
proof -
  define lang where "lang = (case lang_arg of None \<Rightarrow> language e | Some l \<Rightarrow> l)"
  have ins: "input_port_list cn lang e = Inr (map (spec_in_line cn lang) in_ports)"
    unfolding input_port_list_def
    by (rule map_raise_all2) (rule list_all2_mono [OF assms(1)], rule input_line_of_port)
  have outs: "component_output_port_list cn lang e = Inr (map (spec_out_line cn lang) out_ports)"
    unfolding component_output_port_list_def
    by (rule map_raise_all2)
      (rule list_all2_mono [OF assms(2)], rule component_output_line_of_port)
  have empty: "join '';\<newline>  '' (map (spec_in_line cn lang) in_ports
                 @ map (spec_out_line cn lang) out_ports) = []
        \<longleftrightarrow> map (spec_in_line cn lang) in_ports @ map (spec_out_line cn lang) out_ports = []"
    by (rule join_Nil_iff) (rule spec_lines_nonempty)
  have "get_component_declaration cn e final lang_arg
        = Inr (spec_component_text (name e)
            (spec_port_block (map (spec_in_line cn lang) in_ports
                              @ map (spec_out_line cn lang) out_ports)))"
    unfolding get_component_declaration_def lang_def [symmetric] Let_def
    using empty by (simp add: ins outs spec_component_text_def spec_port_block_def)
  then show ?thesis by (simp add: lang_def)
qed

text \<open>
  C7. The claim holds where the code formats the outputs alike, and fails on the entity
  \<open>late\<close>, whose output port has no format of its own while the value assigned to it
  has one: \<^verbatim>\<open>get_declaration\<close> takes the format from \<^verbatim>\<open>get_output_precision\<close>, which falls
  back to the value, and renders the port; \<^verbatim>\<open>get_component_declaration\<close> asks the port
  itself and raises.
\<close>

theorem component_declaration_late:
  "get_declaration example_code_name late False None
     = Inr ''entity late is \<newline>port (\<newline>  s : out F32\<newline>);\<newline>end late;\<newline>\<newline>''
   \<and> get_component_declaration example_code_name late False None = Inl AttributeError"
  by (simp add: get_declaration_def get_component_declaration_def input_port_list_def
      output_port_list_def component_output_port_list_def get_output_assign_def late_def
      CodeEntity_def instanciate_dyn_attributes_def output_port_line_def
      component_output_port_line_def get_port_from_output_def get_output_precision_def
      get_input_def ReferenceAssign_def Signal_def get_tag_def get_precision_def
      get_code_name_def py_str_def example_code_name_def)

section \<open>Definition of an entity\<close>

text \<open>
  The statements of \<^verbatim>\<open>get_definition\<close> that follow the creation of the code object
  register the three ieee headers, emit the declaration, open a level without
  indentation and run the code generator on the entity's scheme; when the generator
  returns with that level still open, they close it and return the code object. They
  write neither the architecture line nor the trailer of \<^verbatim>\<open>add_definition\<close>.
\<close>

lemma get_definition_body_steps:
  assumes "get_declaration cn e False lang = Inr decl"
    and "cg \<lparr>headers = [''ieee.std_logic_1164.all'', ''ieee.std_logic_unsigned.all'',
                         ''ieee.numeric_std.all''],
              buffer = decl, levels = [False], static_cst = sc\<rparr>
            (Some (get_scheme e)) \<lparr>folded = fld, initial = False, kw_language = lang\<rparr>
         = Inr (r, co')"
    and "levels co' = l # ls"
  shows "get_definition_body cn e cg lang fld (NestedCode sc) = Inr (co'\<lparr>levels := ls\<rparr>)"
  using assms
  by (simp add: get_definition_body_def NestedCode_def add_local_header_def emit_def
      open_level_def close_level_def Let_def)

lemma get_definition_body_adder:
  "get_definition_body example_code_name adder tag_generator None True (NestedCode False)
     = Inr \<lparr>headers = [''ieee.std_logic_1164.all'', ''ieee.std_logic_unsigned.all'',
                        ''ieee.numeric_std.all''],
             buffer = ''entity adder is \<newline>port (\<newline>  a : in F32;\<newline>  b : in F32;\<newline>  s : out F32\<newline>);\<newline>end adder;\<newline>\<newline>None;\<newline>'',
             levels = [], static_cst = False\<rparr>"
  using get_definition_body_steps [of example_code_name adder None
      "''entity adder is \<newline>port (\<newline>  a : in F32;\<newline>  b : in F32;\<newline>  s : out F32\<newline>);\<newline>end adder;\<newline>\<newline>''"
      tag_generator False True "''tmp''"
      "\<lparr>headers = [''ieee.std_logic_1164.all'', ''ieee.std_logic_unsigned.all'',
                    ''ieee.numeric_std.all''],
         buffer = ''entity adder is \<newline>port (\<newline>  a : in F32;\<newline>  b : in F32;\<newline>  s : out F32\<newline>);\<newline>end adder;\<newline>\<newline>None;\<newline>'',
         levels = [False], static_cst = False\<rparr>" False "[]"]
  by (simp add: adder_declaration tag_generator_adder emit_def)

text \<open>Whatever its arguments, \<^verbatim>\<open>get_definition\<close> raises at the creation of the code object.\<close>

lemma get_definition_raises:
  "get_definition cn e cg lang fld sc = Inl (NameError ''VHDLCodeObject'')"
  by (simp add: get_definition_def lookup_global_def code_entity_globals_def)

text \<open>
  C5. The claim describes what \<^verbatim>\<open>get_definition\<close> is written to do; the code misses it
  twice. For the entity without ports and a generator that emits nothing,
  \<^verbatim>\<open>get_definition\<close> raises the NameError for the unbound name \<^verbatim>\<open>VHDLCodeObject\<close> before any
  header, declaration or generation step; and the statements after the creation of the
  code object, run on a new code object, give the declaration alone, a text that does not
  end with the architecture trailer.
\<close>

theorem get_definition_name_error:
  "get_definition example_code_name foo accepting_generator None True False
     = Inl (NameError ''VHDLCodeObject'')
   \<and> get_definition_body example_code_name foo accepting_generator None True (NestedCode False)
     = Inr \<lparr>headers = [''ieee.std_logic_1164.all'', ''ieee.std_logic_unsigned.all'',
                        ''ieee.numeric_std.all''],
             buffer = ''entity foo is \<newline>\<newline>end foo;\<newline>\<newline>'',
             levels = [], static_cst = False\<rparr>
   \<and> \<not> endswith ''entity foo is \<newline>\<newline>end foo;\<newline>\<newline>'' ''end architecture;\<newline>''"
  by (simp add: get_definition_raises get_definition_body_def foo_declaration NestedCode_def
      add_local_header_def emit_def open_level_def close_level_def accepting_generator_def
      endswith_def)

text \<open>
  C6 (as the code has it). \<^verbatim>\<open>add_definition\<close> writes into the code object it is given
  and registers no header. It emits the entity declaration and the line
  \<^verbatim>\<open>architecture rtl of <name> is\<close>, opens an indented level, runs the code generator on
  the entity's scheme with the keyword arguments \<^verbatim>\<open>get_definition\<close> uses, closes the
  level and appends \<^verbatim>\<open>end architecture;\<close>.
\<close>

theorem add_definition_steps:
  assumes "get_declaration cn e False lang = Inr decl"
    and "cg (co\<lparr>buffer := buffer co @ decl @ ''architecture rtl of '' @ name e @ '' is\<newline>'',
                  levels := True # levels co\<rparr>)
            (Some (get_scheme e)) \<lparr>folded = fld, initial = False, kw_language = lang\<rparr>
         = Inr (r, co')"
    and "levels co' = l # ls"
  shows "add_definition cn e cg lang co fld sc
         = Inr (co'\<lparr>levels := ls, buffer := buffer co' @ ''end architecture;\<newline>''\<rparr>)"
  using assms
  by (simp add: add_definition_def emit_def open_level_def close_level_def Let_def)

theorem add_definition_steps_witness:
  "get_declaration example_code_name adder False None
     = Inr ''entity adder is \<newline>port (\<newline>  a : in F32;\<newline>  b : in F32;\<newline>  s : out F32\<newline>);\<newline>end adder;\<newline>\<newline>''
   \<and> add_definition example_code_name adder tag_generator None (NestedCode False) True False
     = Inr \<lparr>headers = [],
             buffer = ''entity adder is \<newline>port (\<newline>  a : in F32;\<newline>  b : in F32;\<newline>  s : out F32\<newline>);\<newline>end adder;\<newline>\<newline>architecture rtl of adder is\<newline>None;\<newline>end architecture;\<newline>'',
             levels = [], static_cst = False\<rparr>"
  using add_definition_steps [of example_code_name adder None
      "''entity adder is \<newline>port (\<newline>  a : in F32;\<newline>  b : in F32;\<newline>  s : out F32\<newline>);\<newline>end adder;\<newline>\<newline>''"
      tag_generator "NestedCode False" True "''tmp''"
      "\<lparr>headers = [],
         buffer = ''entity adder is \<newline>port (\<newline>  a : in F32;\<newline>  b : in F32;\<newline>  s : out F32\<newline>);\<newline>end adder;\<newline>\<newline>architecture rtl of adder is\<newline>None;\<newline>'',
         levels = [True], static_cst = False\<rparr>" True "[]" False]
  by (simp add: adder_declaration tag_generator_adder emit_def NestedCode_def adder_name)

text \<open>
  On an empty code object the text written for the entity without ports starts with the
  entity declaration.
\<close>

theorem add_definition_counterexample:
  "add_definition example_code_name foo accepting_generator None (NestedCode False) True False
     = Inr \<lparr>headers = [],
             buffer = ''entity foo is \<newline>\<newline>end foo;\<newline>\<newline>architecture rtl of foo is\<newline>end architecture;\<newline>'',
             levels = [], static_cst = False\<rparr>"
  by (simp add: add_definition_def foo_declaration NestedCode_def emit_def
      open_level_def close_level_def accepting_generator_def foo_name)

end
